theory Spec2Isabelle
  imports Complex_Main "HOL-Library.Word"
begin

section \<open>Python values and database sessions (src/database.py)\<close>

text \<open>
  A Python exception is a value: its class name and its message (\<open>str(e)\<close>).
  \<open>quoted\<close> puts a text between apostrophes, as \<open>repr\<close> does in the messages below.
\<close>

datatype py_exception = Raised string string

fun str :: "py_exception \<Rightarrow> string" where
  "str (Raised cls msg) = msg"

definition quoted :: "string \<Rightarrow> string" where
  "quoted s = CHR 0x27 # s @ [CHR 0x27]"

text \<open>Python's \<open>str\<close> of an integer.\<close>

function str_nat :: "nat \<Rightarrow> string" where
  "str_nat n = (if n < 10 then [''0123456789'' ! n] else str_nat (n div 10) @ [''0123456789'' ! (n mod 10)])"
  by pat_completeness auto
termination
  by (relation "measure id") auto

declare str_nat.simps [simp del]

definition str_int :: "int \<Rightarrow> string" where
  "str_int i = (if i < 0 then CHR ''-'' # str_nat (nat (- i)) else str_nat (nat i))"

text \<open>
  What a session factory of database.py hands to \<open>async with\<close>. \<open>get_db\<close> (lines
  98-104) is a function whose body holds \<open>yield\<close>: calling it returns a generator
  object, which has neither \<open>__aenter__\<close> nor \<open>__aexit__\<close>. \<open>async_with\<close> is
  the entry of the statement \<open>async with obj as db\<close>: on an object without the
  protocol it raises \<open>TypeError\<close> (the class and text of CPython 3.11 and later)
  before the body runs. The fine-tuning scheduler and the semantic cache open every
  session with \<open>get_db\<close>. The load balancer and the orchestrator use
  \<open>get_async_db_ctx\<close>, whose \<open>AsyncDBSession\<close> (lines 127-140) defines the
  protocol; their sessions are taken as open.
\<close>

datatype context_object = Generator_object | Async_context_manager

definition generator_TypeError :: py_exception where
  "generator_TypeError =
     Raised ''TypeError''
       (quoted ''generator'' @ '' object does not support the asynchronous context manager protocol'')"

fun async_with :: "context_object \<Rightarrow> py_exception + unit" where
  "async_with Generator_object = Inl generator_TypeError"
| "async_with Async_context_manager = Inr ()"

definition get_db :: context_object where
  "get_db = Generator_object"

section \<open>Fine-tuning scheduler (src/llm/fine\_tuning.py)\<close>

text \<open>
  The table \<open>fine_tuning_jobs\<close> is a list of rows in storage order. Of a row the
  model keeps the columns the scheduler reads or writes when it moves a job between
  statuses: \<open>id\<close>, \<open>user_id\<close>, \<open>base_model_id\<close>, \<open>status\<close> and the three
  timestamps. Timestamps are integers (a clock reading handed to each operation).
\<close>

datatype FineTuningJobStatus = QUEUED | PREPARING | RUNNING | COMPLETED | FAILED | CANCELLED

record FineTuningJob =
  job_id :: int
  job_user_id :: int
  base_model_id :: int
  status :: FineTuningJobStatus
  created_at :: int
  started_at :: "int option"
  completed_at :: "int option"

text \<open>
  \<open>FineTuningManager\<close>: the persisted tables it reads (\<open>jobs\<close>, the ids of
  \<open>llm_models\<close> and of \<open>users\<close>) and its in-memory fields. \<open>active_jobs\<close> is the
  key set of the dictionary \<open>self.active_jobs\<close>. \<open>loop_running\<close> tells whether the
  task \<open>job_processing_loop\<close> has been created. \<open>launched\<close> holds the job ids handed
  to \<open>asyncio.create_task(self._run_fine_tuning_job(job.id))\<close> whose coroutine has not
  begun; \<open>in_run\<close> those whose coroutine is inside its \<open>try\<close> block.
\<close>

record scheduler =
  jobs :: "FineTuningJob list"
  model_ids :: "int list"
  user_ids :: "int list"
  initialized :: bool
  loop_running :: bool
  active_jobs :: "int set"
  launched :: "int list"
  in_run :: "int list"

definition set_job :: "int \<Rightarrow> (FineTuningJob \<Rightarrow> FineTuningJob) \<Rightarrow> FineTuningJob list \<Rightarrow> FineTuningJob list" where
  "set_job jid f js = map (\<lambda>j. if job_id j = jid then f j else j) js"

definition find_job :: "int \<Rightarrow> FineTuningJob list \<Rightarrow> FineTuningJob option" where
  "find_job jid js = find (\<lambda>j. job_id j = jid) js"

text \<open>
  \<open>_resume_jobs\<close> (lines 44-67) opens its session with \<open>async with get_db()\<close> (line
  46). Inside, the query selects the rows whose status is QUEUED, PREPARING or RUNNING
  and the loop body resets a row only \<open>if job.status == RUNNING\<close>.
\<close>

definition resume_jobs :: "FineTuningJob list \<Rightarrow> py_exception + FineTuningJob list" where
  "resume_jobs js =
     (case async_with get_db of
        Inl e \<Rightarrow> Inl e
      | Inr db \<Rightarrow>
          Inr (map (\<lambda>j. if status j = QUEUED \<or> status j = PREPARING \<or> status j = RUNNING
                         then (if status j = RUNNING then j\<lparr>status := QUEUED\<rparr> else j)
                         else j) js))"

text \<open>
  \<open>initialize\<close> (lines 25-42): \<open>_resume_jobs\<close> is awaited before the polling task is
  created and before \<open>self.initialized\<close> is set; an exception of \<open>_resume_jobs\<close>
  leaves \<open>initialize\<close> there.
\<close>

definition initialize :: "scheduler \<Rightarrow> py_exception + scheduler" where
  "initialize s =
     (if initialized s then Inr s
      else case resume_jobs (jobs s) of
             Inl e \<Rightarrow> Inl e
           | Inr js \<Rightarrow> Inr (s\<lparr>jobs := js, loop_running := True, initialized := True\<rparr>))"

text \<open>
  \<open>_process_next_job\<close> (lines 80-108): returns at once when \<open>len(self.active_jobs) >= 1\<close>;
  otherwise opens a session (line 86), takes the first QUEUED row ordered by
  \<open>created_at\<close>, marks it PREPARING with a start time and creates the task that will
  run it.
\<close>

definition process_next_job :: "int \<Rightarrow> scheduler \<Rightarrow> py_exception + scheduler" where
  "process_next_job now s =
     (if active_jobs s \<noteq> {} then Inr s
      else case async_with get_db of
             Inl e \<Rightarrow> Inl e
           | Inr db \<Rightarrow>
               (case sort_key created_at (filter (\<lambda>j. status j = QUEUED) (jobs s)) of
                  [] \<Rightarrow> Inr s
                | j # _ \<Rightarrow>
                    Inr (s\<lparr>jobs := set_job (job_id j) (\<lambda>x. x\<lparr>status := PREPARING, started_at := Some now\<rparr>) (jobs s),
                           launched := launched s @ [job_id j]\<rparr>)))"

text \<open>
  \<open>_run_fine_tuning_job\<close>, first part (lines 110-149), as the task created for a
  launched job: it opens a session (line 114), looks the job up, fails it when its base
  model is missing, and otherwise registers it in \<open>active_jobs\<close> and marks it RUNNING,
  whatever its status was. An exception ends the task; nothing awaits it.
\<close>

definition run_begin :: "int \<Rightarrow> scheduler \<Rightarrow> scheduler" where
  "run_begin jid s =
     (if jid \<notin> set (launched s) then s
      else let s1 = s\<lparr>launched := remove1 jid (launched s)\<rparr> in
        case async_with get_db of
          Inl e \<Rightarrow> s1
        | Inr db \<Rightarrow>
            (case find_job jid (jobs s1) of
               None \<Rightarrow> s1
             | Some j \<Rightarrow>
                 if base_model_id j \<notin> set (model_ids s1)
                 then s1\<lparr>jobs := set_job jid (\<lambda>x. x\<lparr>status := FAILED\<rparr>) (jobs s1)\<rparr>
                 else s1\<lparr>active_jobs := insert jid (active_jobs s1),
                         jobs := set_job jid (\<lambda>x. x\<lparr>status := RUNNING\<rparr>) (jobs s1),
                         in_run := in_run s1 @ [jid]\<rparr>))"

text \<open>
  \<open>_run_fine_tuning_job\<close>, last part (lines 223-253), inside the session of the first
  part: the run ends COMPLETED, or FAILED when the \<open>try\<close> block raised; the
  \<open>finally\<close> clause removes the job from \<open>active_jobs\<close>. The simulated training steps
  between the two parts write only the job's metrics.
\<close>

definition run_end :: "int \<Rightarrow> bool \<Rightarrow> int \<Rightarrow> scheduler \<Rightarrow> scheduler" where
  "run_end jid ok now s =
     (if jid \<notin> set (in_run s) then s
      else s\<lparr>in_run := remove1 jid (in_run s),
             jobs := set_job jid (\<lambda>x. x\<lparr>status := (if ok then COMPLETED else FAILED),
                                         completed_at := Some now\<rparr>) (jobs s),
             active_jobs := active_jobs s - {jid}\<rparr>)"

text \<open>
  \<open>create_job\<close> (lines 255-304): the session is opened first (line 267); inside,
  \<open>ValueError\<close> when the base model or the user is missing.
\<close>

definition next_job_id :: "FineTuningJob list \<Rightarrow> int" where
  "next_job_id js = fold max (map job_id js) 0 + 1"

definition create_job :: "int \<Rightarrow> int \<Rightarrow> int \<Rightarrow> scheduler \<Rightarrow> py_exception + (int \<times> scheduler)" where
  "create_job bm uid now s =
     (case async_with get_db of
        Inl e \<Rightarrow> Inl e
      | Inr db \<Rightarrow>
          if bm \<notin> set (model_ids s)
          then Inl (Raised ''ValueError'' (''Base model with ID '' @ str_int bm @ '' not found''))
          else if uid \<notin> set (user_ids s)
          then Inl (Raised ''ValueError'' (''User with ID '' @ str_int uid @ '' not found''))
          else let jid = next_job_id (jobs s) in
            Inr (jid, s\<lparr>jobs := jobs s @
                   [\<lparr>job_id = jid, job_user_id = uid, base_model_id = bm, status = QUEUED,
                     created_at = now, started_at = None, completed_at = None\<rparr>]\<rparr>))"

text \<open>\<open>cancel_job\<close> (lines 345-376); the session is opened first (line 347).\<close>

definition cancel_job :: "int \<Rightarrow> int \<Rightarrow> scheduler \<Rightarrow> py_exception + (bool \<times> scheduler)" where
  "cancel_job jid now s =
     (case async_with get_db of
        Inl e \<Rightarrow> Inl e
      | Inr db \<Rightarrow>
          (case find_job jid (jobs s) of
             None \<Rightarrow> Inr (False, s)
           | Some j \<Rightarrow>
               if \<not> (status j = QUEUED \<or> status j = PREPARING \<or> status j = RUNNING) then Inr (False, s)
               else Inr (True, s\<lparr>jobs := set_job jid (\<lambda>x. x\<lparr>status := CANCELLED, completed_at := Some now\<rparr>) (jobs s),
                                  active_jobs := active_jobs s - {jid}\<rparr>)))"

text \<open>
  A process start: a new \<open>FineTuningManager\<close> over the persisted rows (\<open>__init__\<close>:
  not initialized, an empty \<open>active_jobs\<close>; no task exists), and the startup event
  that awaits \<open>initialize\<close> (api/endpoints/fine\_tuning.py, lines 29-31). When
  \<open>initialize\<close> raises, the manager stays as \<open>__init__\<close> left it.
\<close>

definition FineTuningManager :: "FineTuningJob list \<Rightarrow> int list \<Rightarrow> int list \<Rightarrow> scheduler" where
  "FineTuningManager js ms us =
     \<lparr>jobs = js, model_ids = ms, user_ids = us, initialized = False, loop_running = False,
      active_jobs = {}, launched = [], in_run = []\<rparr>"

definition restart :: "scheduler \<Rightarrow> scheduler" where
  "restart s =
     (let s0 = FineTuningManager (jobs s) (model_ids s) (user_ids s)
      in case initialize s0 of Inl e \<Rightarrow> s0 | Inr s1 \<Rightarrow> s1)"

text \<open>
  The scheduler as a transition system: one event per operation. A polling step is one
  round of \<open>job_processing_loop\<close> (lines 69-78), which exists once \<open>initialize\<close> has
  created it and which catches the exceptions of \<open>_process_next_job\<close>. The exception
  of a submission or of a cancellation goes to the caller and leaves the state as it
  was.
\<close>

datatype event =
    Submit int int int
  | Poll int
  | Run_begin int
  | Run_end int bool int
  | Cancel int int
  | Restart

fun step :: "scheduler \<Rightarrow> event \<Rightarrow> scheduler" where
  "step s (Submit bm uid now) = (case create_job bm uid now s of Inl e \<Rightarrow> s | Inr (jid, s') \<Rightarrow> s')"
| "step s (Poll now) =
     (if loop_running s then (case process_next_job now s of Inl e \<Rightarrow> s | Inr s' \<Rightarrow> s') else s)"
| "step s (Run_begin jid) = run_begin jid s"
| "step s (Run_end jid ok now) = run_end jid ok now s"
| "step s (Cancel jid now) = (case cancel_job jid now s of Inl e \<Rightarrow> s | Inr (ok, s') \<Rightarrow> s')"
| "step s Restart = restart s"




section \<open>Load balancer (src/llm/load\_balancer.py, src/utils.py)\<close>

record ServerNode =
  server_id :: int
  server_name :: string
  host :: string
  port :: int
  api_key :: "string option"
  gpu_count :: int
  gpu_memory :: int
  is_active :: bool
  health_status :: string

text \<open>
  A metrics dictionary maps field names to numbers. Python's floats are modelled as
  reals: the balancer only stores, adds, subtracts and compares them.
\<close>

type_synonym metrics = "string \<rightharpoonup> real"

record ServerLoadMetrics =
  row_server_id :: int
  gpu_utilization :: real
  gpu_memory_used :: real
  gpu_memory_total :: real
  cpu_utilization :: real
  active_requests :: real
  queue_depth :: real

text \<open>
  \<open>LLMLoadBalancer\<close>: its fields, and the two tables it reads and writes
  (\<open>server_nodes\<close>, \<open>server_load_metrics\<close>).
\<close>

record load_balancer =
  servers :: "ServerNode list"
  server_metrics :: "int \<rightharpoonup> metrics"
  last_server_index :: int
  load_balancing_strategy :: string
  server_nodes :: "ServerNode list"
  server_load_metrics :: "ServerLoadMetrics list"

definition dict_get :: "metrics \<Rightarrow> string \<Rightarrow> real \<Rightarrow> real" where
  "dict_get m k d = (case m k of None \<Rightarrow> d | Some v \<Rightarrow> v)"

definition default_metrics :: "ServerNode \<Rightarrow> metrics" where
  "default_metrics server =
     [''gpu_utilization'' \<mapsto> 0, ''gpu_memory_used'' \<mapsto> 0,
      ''gpu_memory_total'' \<mapsto> real_of_int (gpu_memory server),
      ''cpu_utilization'' \<mapsto> 0, ''active_requests'' \<mapsto> 0, ''queue_depth'' \<mapsto> 0]"

text \<open>
  What \<open>response.json()\<close> decodes a body to: a JSON object (a \<open>dict\<close>), or a value of
  another Python type (\<open>list\<close>, \<open>NoneType\<close>, \<open>str\<close>, \<open>int\<close>, \<open>float\<close>,
  \<open>bool\<close>), of which the model keeps the type's name.
\<close>

datatype json_value = Json_object metrics | Json_other string

text \<open>
  The answer of a node to \<open>GET /metrics\<close>: an exception of the HTTP client (timeout,
  refused connection), or a response with a status code whose body decodes to a JSON
  value or does not (\<open>response.json()\<close> raises).
\<close>

datatype metrics_reply = Get_raises py_exception | Get_response int "json_value option"

text \<open>
  \<open>get_server_load_metrics\<close> (utils.py, lines 293-328): a reply with status 200 is
  answered with whatever its body decodes to, unchecked; every failure is caught and
  answered with the default dictionary.
\<close>

definition get_server_load_metrics :: "(ServerNode \<Rightarrow> metrics_reply) \<Rightarrow> ServerNode \<Rightarrow> json_value" where
  "get_server_load_metrics http_get server =
     (case http_get server of
        Get_raises e \<Rightarrow> Json_object (default_metrics server)
      | Get_response code body \<Rightarrow>
          if code = 200
          then (case body of Some v \<Rightarrow> v | None \<Rightarrow> Json_object (default_metrics server))
          else Json_object (default_metrics server))"

definition fetch_failed :: "(ServerNode \<Rightarrow> metrics_reply) \<Rightarrow> ServerNode \<Rightarrow> bool" where
  "fetch_failed http_get server =
     (case http_get server of
        Get_raises e \<Rightarrow> True
      | Get_response code body \<Rightarrow> code \<noteq> 200 \<or> body = None)"

definition load_row :: "ServerNode \<Rightarrow> metrics \<Rightarrow> ServerLoadMetrics" where
  "load_row server m =
     \<lparr>row_server_id = server_id server,
      gpu_utilization = dict_get m ''gpu_utilization'' 0,
      gpu_memory_used = dict_get m ''gpu_memory_used'' 0,
      gpu_memory_total = dict_get m ''gpu_memory_total'' (real_of_int (gpu_memory server)),
      cpu_utilization = dict_get m ''cpu_utilization'' 0,
      active_requests = dict_get m ''active_requests'' 0,
      queue_depth = dict_get m ''queue_depth'' 0\<rparr>"

text \<open>
  The loop of \<open>_collect_all_server_metrics\<close> (lines 105-132) over \<open>self.servers\<close>. It
  carries the dictionary \<open>self.server_metrics\<close> and the rows given to \<open>db.add\<close>.
  \<open>clock\<close> is the reading of \<open>time.time()\<close> taken for a server. The display
  \<open>{**metrics, "last_updated": ...}\<close> raises \<open>TypeError\<close> on a value that is not a
  mapping, which ends the loop: the dictionary keeps what earlier rounds stored.
\<close>

fun collect_loop ::
  "(ServerNode \<Rightarrow> metrics_reply) \<Rightarrow> (ServerNode \<Rightarrow> real) \<Rightarrow> (int \<rightharpoonup> metrics) \<times> ServerLoadMetrics list
     \<Rightarrow> ServerNode list \<Rightarrow> py_exception option \<times> (int \<rightharpoonup> metrics) \<times> ServerLoadMetrics list" where
  "collect_loop http_get clock (sm, rows) [] = (None, sm, rows)"
| "collect_loop http_get clock (sm, rows) (server # rest) =
     (if health_status server \<noteq> ''healthy'' then collect_loop http_get clock (sm, rows) rest
      else case get_server_load_metrics http_get server of
             Json_other tp \<Rightarrow> (Some (Raised ''TypeError'' (quoted tp @ '' object is not a mapping'')), sm, rows)
           | Json_object m \<Rightarrow>
               collect_loop http_get clock
                 (sm(server_id server \<mapsto> m(''last_updated'' \<mapsto> clock server)), rows @ [load_row server m]) rest)"

text \<open>
  \<open>_collect_all_server_metrics\<close> (lines 101-134). The rows are committed once, after
  the loop (line 134); \<open>commit\<close> is what \<open>await db.commit()\<close> answers on them, the
  exception it raises if the database refuses them. An exception of the loop or of the
  commit leaves the method, and the table is as it was.
\<close>

definition collect_all_server_metrics ::
  "(ServerNode \<Rightarrow> metrics_reply) \<Rightarrow> (ServerNode \<Rightarrow> real) \<Rightarrow> (ServerLoadMetrics list \<Rightarrow> py_exception option)
     \<Rightarrow> load_balancer \<Rightarrow> py_exception option \<times> load_balancer" where
  "collect_all_server_metrics http_get clock commit lb =
     (case collect_loop http_get clock (server_metrics lb, []) (servers lb) of
        (Some e, sm, rows) \<Rightarrow> (Some e, lb\<lparr>server_metrics := sm\<rparr>)
      | (None, sm, rows) \<Rightarrow>
          (case commit rows of
             Some e \<Rightarrow> (Some e, lb\<lparr>server_metrics := sm\<rparr>)
           | None \<Rightarrow> (None, lb\<lparr>server_metrics := sm,
                               server_load_metrics := server_load_metrics lb @ rows\<rparr>)))"

text \<open>\<open>refresh_servers\<close> (lines 40-63).\<close>

definition init_metrics :: "real \<Rightarrow> (int \<rightharpoonup> metrics) \<Rightarrow> ServerNode \<Rightarrow> (int \<rightharpoonup> metrics)" where
  "init_metrics now sm server =
     (if server_id server \<in> dom sm then sm
      else sm(server_id server \<mapsto>
             [''gpu_utilization'' \<mapsto> 0, ''gpu_memory_used'' \<mapsto> 0,
              ''gpu_memory_total'' \<mapsto> real_of_int (gpu_memory server),
              ''cpu_utilization'' \<mapsto> 0, ''active_requests'' \<mapsto> 0, ''queue_depth'' \<mapsto> 0,
              ''last_updated'' \<mapsto> now]))"

definition refresh_servers :: "real \<Rightarrow> load_balancer \<Rightarrow> load_balancer" where
  "refresh_servers now lb =
     (let svs = filter is_active (server_nodes lb) in
      lb\<lparr>servers := svs, server_metrics := foldl (init_metrics now) (server_metrics lb) svs\<rparr>)"

text \<open>
  The three strategies (lines 167-210). \<open>_round_robin_strategy\<close> divides by
  \<open>len(servers)\<close>: on an empty list Python raises \<open>ZeroDivisionError\<close>.
\<close>

definition round_robin_strategy ::
  "ServerNode list \<Rightarrow> load_balancer \<Rightarrow> py_exception + (ServerNode \<times> load_balancer)" where
  "round_robin_strategy svs lb =
     (if svs = [] then Inl (Raised ''ZeroDivisionError'' ''integer modulo by zero'')
      else let i = (last_server_index lb + 1) mod int (length svs) in
        Inr (svs ! nat i, lb\<lparr>last_server_index := i\<rparr>))"

definition server_load :: "load_balancer \<Rightarrow> ServerNode \<Rightarrow> real" where
  "server_load lb server =
     (let m = (case server_metrics lb (server_id server) of None \<Rightarrow> Map.empty | Some d \<Rightarrow> d)
      in dict_get m ''active_requests'' 0 + dict_get m ''queue_depth'' 0)"

text \<open>\<open>min_load\<close> starts at \<open>float('inf')\<close>: \<open>None\<close> here.\<close>

fun least_load_scan ::
  "load_balancer \<Rightarrow> real option \<times> ServerNode option \<Rightarrow> ServerNode list \<Rightarrow> real option \<times> ServerNode option" where
  "least_load_scan lb acc [] = acc"
| "least_load_scan lb (min_load, selected) (server # rest) =
     (let load = server_load lb server in
      if (case min_load of None \<Rightarrow> True | Some m \<Rightarrow> load < m)
      then least_load_scan lb (Some load, Some server) rest
      else least_load_scan lb (min_load, selected) rest)"

definition least_load_strategy ::
  "ServerNode list \<Rightarrow> load_balancer \<Rightarrow> py_exception + (ServerNode \<times> load_balancer)" where
  "least_load_strategy svs lb =
     (case snd (least_load_scan lb (None, None) svs) of
        Some server \<Rightarrow> Inr (server, lb)
      | None \<Rightarrow> (case svs of [] \<Rightarrow> Inl (Raised ''IndexError'' ''list index out of range'')
                 | server # _ \<Rightarrow> Inr (server, lb)))"

definition available_memory :: "load_balancer \<Rightarrow> ServerNode \<Rightarrow> real" where
  "available_memory lb server =
     (let m = (case server_metrics lb (server_id server) of None \<Rightarrow> Map.empty | Some d \<Rightarrow> d)
      in dict_get m ''gpu_memory_total'' (real_of_int (gpu_memory server)) - dict_get m ''gpu_memory_used'' 0)"

fun gpu_memory_scan ::
  "load_balancer \<Rightarrow> real \<times> ServerNode option \<Rightarrow> ServerNode list \<Rightarrow> real \<times> ServerNode option" where
  "gpu_memory_scan lb acc [] = acc"
| "gpu_memory_scan lb (max_available, selected) (server # rest) =
     (let available = available_memory lb server in
      if available > max_available
      then gpu_memory_scan lb (available, Some server) rest
      else gpu_memory_scan lb (max_available, selected) rest)"

definition gpu_memory_strategy ::
  "ServerNode list \<Rightarrow> load_balancer \<Rightarrow> py_exception + (ServerNode \<times> load_balancer)" where
  "gpu_memory_strategy svs lb =
     (case snd (gpu_memory_scan lb (- 1, None) svs) of
        Some server \<Rightarrow> Inr (server, lb)
      | None \<Rightarrow> (case svs of [] \<Rightarrow> Inl (Raised ''IndexError'' ''list index out of range'')
                 | server # _ \<Rightarrow> Inr (server, lb)))"

text \<open>\<open>get_server\<close> (lines 136-165); \<open>now\<close> is the clock reading a refresh would take.\<close>

definition get_server ::
  "real \<Rightarrow> string \<Rightarrow> load_balancer \<Rightarrow> py_exception + (ServerNode option \<times> load_balancer)" where
  "get_server now model_name lb =
     (let lb1 = (if servers lb = [] then refresh_servers now lb else lb);
          healthy_servers = filter (\<lambda>s. health_status s = ''healthy'') (servers lb1)
      in if healthy_servers = [] then Inr (None, lb1)
         else map_sum id (\<lambda>(server, lb2). (Some server, lb2))
           (if load_balancing_strategy lb1 = ''round_robin'' then round_robin_strategy healthy_servers lb1
            else if load_balancing_strategy lb1 = ''least_load'' then least_load_strategy healthy_servers lb1
            else if load_balancing_strategy lb1 = ''gpu_memory'' then gpu_memory_strategy healthy_servers lb1
            else round_robin_strategy healthy_servers lb1))"

text \<open>\<open>n\<close> consecutive calls of \<open>get_server\<close>, collecting what each returns.\<close>

fun get_server_times ::
  "nat \<Rightarrow> real \<Rightarrow> string \<Rightarrow> load_balancer \<Rightarrow> py_exception + (ServerNode option list \<times> load_balancer)" where
  "get_server_times 0 now model_name lb = Inr ([], lb)"
| "get_server_times (Suc n) now model_name lb =
     (case get_server now model_name lb of
        Inl e \<Rightarrow> Inl e
      | Inr (r, lb1) \<Rightarrow>
          (case get_server_times n now model_name lb1 of
             Inl e \<Rightarrow> Inl e
           | Inr (rs, lb2) \<Rightarrow> Inr (r # rs, lb2)))"

section \<open>Semantic cache (src/llm/semantic\_cache.py)\<close>

text \<open>The settings of config.py that the cache and the orchestrator read.\<close>

record settings =
  ENABLE_SEMANTIC_CACHE :: bool
  SEMANTIC_CACHE_EXPIRY_SECONDS :: int
  SEMANTIC_CACHE_SIMILARITY_THRESHOLD :: real
  LLM_DEFAULT_MODEL :: string

text \<open>
  A row of the table \<open>semantic_cache\<close> with the columns models.py declares (lines
  165-176): there is no column \<open>cache_key\<close>. The column \<open>query_embedding\<close> is
  nullable text: empty (\<open>NULL\<close> or the empty string), text that \<open>json.loads\<close>
  rejects, or a JSON list of numbers. Timestamps are seconds as reals.
\<close>

datatype stored_embedding = Embedding_null | Embedding_malformed | Embedding_vector "real list"

record SemanticCacheEntry =
  entry_id :: int
  query_text :: string
  query_embedding :: stored_embedding
  response_text :: string
  entry_model_id :: int
  entry_created_at :: real
  expires_at :: real
  hit_count :: int

definition SemanticCacheEntry_columns :: "string list" where
  "SemanticCacheEntry_columns =
     [''id'', ''query_text'', ''query_embedding'', ''response_text'', ''model_id'', ''created_at'',
      ''expires_at'', ''hit_count'']"

text \<open>
  The constructor of a mapped class takes keyword arguments and raises \<open>TypeError\<close>
  on the first keyword that is not an attribute of the class.
\<close>

definition invalid_keyword :: "string list \<Rightarrow> string list \<Rightarrow> py_exception option" where
  "invalid_keyword columns keywords =
     map_option (\<lambda>k. Raised ''TypeError'' (quoted k @ '' is an invalid keyword argument for SemanticCacheEntry''))
       (find (\<lambda>k. k \<notin> set columns) keywords)"

text \<open>
  Reading an attribute that neither the class nor the entry has raises
  \<open>AttributeError\<close>.
\<close>

definition no_class_attribute :: "string \<Rightarrow> py_exception" where
  "no_class_attribute a =
     Raised ''AttributeError''
       (''type object '' @ quoted ''SemanticCacheEntry'' @ '' has no attribute '' @ quoted a)"

definition no_entry_attribute :: "string \<Rightarrow> py_exception" where
  "no_entry_attribute a =
     Raised ''AttributeError''
       (quoted ''SemanticCacheEntry'' @ '' object has no attribute '' @ quoted a)"

text \<open>
  \<open>compute_embedding\<close> (lines 63-90). \<open>hashlib.md5\<close> is a parameter: a function from
  the text to its 128-bit digest, whose sixteen bytes \<open>digest()\<close> lists from the most
  significant one. \<open>pair_values\<close> is the loop over \<open>range(0, len(hash_bytes), 2)\<close>
  with its guard \<open>i+1 < len(hash_bytes)\<close>.
\<close>

definition digest_bytes :: "128 word \<Rightarrow> 8 word list" where
  "digest_bytes w = map (\<lambda>i. ucast (drop_bit (8 * (15 - i)) w)) [0..<16]"

fun pair_values :: "8 word list \<Rightarrow> real list" where
  "pair_values (a # b # rest) = real (unat a * 256 + unat b) / 65535 # pair_values rest"
| "pair_values [a] = []"
| "pair_values [] = []"

definition compute_embedding :: "(string \<Rightarrow> 128 word) \<Rightarrow> string \<Rightarrow> real list" where
  "compute_embedding md5 text =
     (let embedding = take 16 (pair_values (digest_bytes (md5 text)))
      in embedding @ replicate (16 - length embedding) 0)"

text \<open>
  \<open>cosine_similarity\<close> (lines 92-104). The arithmetic of \<open>float64\<close> is modelled by
  that of the reals, without its rounding; no statement below compares a computed
  similarity. \<open>np.dot\<close> of two vectors of different lengths raises \<open>ValueError\<close>.
\<close>

definition dot_product :: "real list \<Rightarrow> real list \<Rightarrow> real" where
  "dot_product vec1 vec2 = sum_list (map (\<lambda>(x, y). x * y) (zip vec1 vec2))"

definition linalg_norm :: "real list \<Rightarrow> real" where
  "linalg_norm vec = sqrt (sum_list (map (\<lambda>x. x * x) vec))"

definition shapes_not_aligned :: "nat \<Rightarrow> nat \<Rightarrow> py_exception" where
  "shapes_not_aligned n m =
     Raised ''ValueError''
       (''shapes ('' @ str_nat n @ '',) and ('' @ str_nat m @ '',) not aligned: '' @ str_nat n
        @ '' (dim 0) != '' @ str_nat m @ '' (dim 0)'')"

definition cosine_similarity :: "real list \<Rightarrow> real list \<Rightarrow> py_exception + real" where
  "cosine_similarity vec1 vec2 =
     (if length vec1 \<noteq> length vec2 then Inl (shapes_not_aligned (length vec1) (length vec2))
      else if linalg_norm vec1 = 0 \<or> linalg_norm vec2 = 0 then Inr 0
      else Inr (dot_product vec1 vec2 / (linalg_norm vec1 * linalg_norm vec2)))"

record cached_response =
  response :: string
  prompt_tokens :: int
  completion_tokens :: int
  cached_model_id :: int

definition hit_result :: "SemanticCacheEntry \<Rightarrow> cached_response" where
  "hit_result entry =
     \<lparr>response = response_text entry, prompt_tokens = 0, completion_tokens = 0,
      cached_model_id = entry_model_id entry\<rparr>"

text \<open>Python's truth value of an optional string: \<open>None\<close> and \<open>""\<close> are false.\<close>

definition truthy :: "string option \<Rightarrow> bool" where
  "truthy k = (case k of None \<Rightarrow> False | Some s \<Rightarrow> s \<noteq> [])"

text \<open>
  The loop of the similarity path (lines 158-189) over the selected rows, each with its
  position in the table; it answers the position of the row it returns.
\<close>

fun scan_entries :: "real \<Rightarrow> real list \<Rightarrow> (nat \<times> SemanticCacheEntry) list \<Rightarrow> py_exception + nat option" where
  "scan_entries threshold prompt_embedding [] = Inr None"
| "scan_entries threshold prompt_embedding ((i, entry) # rest) =
     (case query_embedding entry of
        Embedding_null \<Rightarrow> scan_entries threshold prompt_embedding rest
      | Embedding_malformed \<Rightarrow> scan_entries threshold prompt_embedding rest
      | Embedding_vector entry_embedding \<Rightarrow>
          (case cosine_similarity prompt_embedding entry_embedding of
             Inl e \<Rightarrow> Inl e
           | Inr similarity \<Rightarrow>
               if similarity \<ge> threshold then Inr (Some i)
               else scan_entries threshold prompt_embedding rest))"

text \<open>
  \<open>SemanticCache.get\<close> (lines 106-192). With a cache key the exact-key path comes
  first: it opens a session with \<open>async with get_db()\<close> (line 117), and its query
  reads the class attribute \<open>SemanticCacheEntry.cache_key\<close> (line 122). The similarity
  path computes the embedding and opens a session the same way (line 146); \<open>now\<close> is
  the reading of \<open>datetime.utcnow()\<close> its query takes; on a hit with a cache key it
  reads \<open>entry.cache_key\<close> (line 176). An exception leaves \<open>get\<close> and the table as
  it was.
\<close>

definition semantic_cache_get ::
  "settings \<Rightarrow> (string \<Rightarrow> 128 word) \<Rightarrow> real \<Rightarrow> SemanticCacheEntry list \<Rightarrow> string \<Rightarrow> int \<Rightarrow> string option
     \<Rightarrow> py_exception + (cached_response option \<times> SemanticCacheEntry list)" where
  "semantic_cache_get cfg md5 now db prompt model key =
     (if \<not> ENABLE_SEMANTIC_CACHE cfg then Inr (None, db)
      else case (if truthy key
                 then (case async_with get_db of
                         Inl e \<Rightarrow> Inl e
                       | Inr session \<Rightarrow> Inl (no_class_attribute ''cache_key''))
                 else Inr ()) of
        Inl e \<Rightarrow> Inl e
      | Inr _ \<Rightarrow>
          (let prompt_embedding = compute_embedding md5 prompt in
           case async_with get_db of
             Inl e \<Rightarrow> Inl e
           | Inr session \<Rightarrow>
               (case scan_entries (SEMANTIC_CACHE_SIMILARITY_THRESHOLD cfg) prompt_embedding
                       (filter (\<lambda>(i, entry). entry_model_id entry = model \<and> expires_at entry > now)
                          (enumerate 0 db)) of
                  Inl e \<Rightarrow> Inl e
                | Inr None \<Rightarrow> Inr (None, db)
                | Inr (Some i) \<Rightarrow>
                    if truthy key then Inl (no_entry_attribute ''cache_key'')
                    else Inr (Some (hit_result (db ! i)),
                              db[i := (db ! i)\<lparr>hit_count := hit_count (db ! i) + 1\<rparr>]))))"

text \<open>
  \<open>SemanticCache.add\<close> (lines 194-228). The entry is constructed with the keywords of
  lines 213-222, the last of which is \<open>cache_key\<close>; then a session is opened with
  \<open>async with get_db()\<close> (line 226) and the row goes to the end of the table with the
  next id. \<open>now1\<close> and \<open>now2\<close> are the two readings of \<open>datetime.utcnow()\<close>.
\<close>

definition next_entry_id :: "SemanticCacheEntry list \<Rightarrow> int" where
  "next_entry_id db = fold max (map entry_id db) 0 + 1"

definition semantic_cache_add ::
  "settings \<Rightarrow> (string \<Rightarrow> 128 word) \<Rightarrow> real \<Rightarrow> real \<Rightarrow> SemanticCacheEntry list \<Rightarrow> string \<Rightarrow> string \<Rightarrow> int
     \<Rightarrow> int \<Rightarrow> int \<Rightarrow> string option \<Rightarrow> py_exception + SemanticCacheEntry list" where
  "semantic_cache_add cfg md5 now1 now2 db prompt resp model ptokens ctokens key =
     (if \<not> ENABLE_SEMANTIC_CACHE cfg then Inr db
      else let prompt_embedding = compute_embedding md5 prompt in
        case invalid_keyword SemanticCacheEntry_columns
               [''query_text'', ''query_embedding'', ''response_text'', ''model_id'', ''created_at'',
                ''expires_at'', ''hit_count'', ''cache_key''] of
          Some e \<Rightarrow> Inl e
        | None \<Rightarrow>
            (case async_with get_db of
               Inl e \<Rightarrow> Inl e
             | Inr session \<Rightarrow>
                 Inr (db @
                   [\<lparr>entry_id = next_entry_id db, query_text = prompt,
                     query_embedding = Embedding_vector prompt_embedding,
                     response_text = resp, entry_model_id = model, entry_created_at = now1,
                     expires_at = now2 + real_of_int (SEMANTIC_CACHE_EXPIRY_SECONDS cfg),
                     hit_count = 0\<rparr>])))"

section \<open>Inference orchestrator (src/llm/inference.py, src/utils.py)\<close>

record LLMModel =
  model_id :: int
  model_name :: string

datatype QueryStatus = PENDING | PROCESSING | QUERY_COMPLETED | QUERY_FAILED | CACHED

text \<open>
  A row of the table \<open>queries\<close> (the GenerationRequest of the specification), with the
  columns that \<open>log_query\<close> and \<open>update_query_response\<close> write.
\<close>

record Query =
  query_id :: int
  query_user_id :: "int option"
  query_model_id :: int
  query_prompt :: string
  query_response :: "string option"
  query_status :: QueryStatus
  token_count_prompt :: int
  token_count_response :: int
  processing_time_ms :: real
  query_completed_at :: "real option"
  query_cached :: bool
  query_cache_key :: "string option"
  error_message :: "string option"

text \<open>The request, the payload sent to the backend, and what the backend answers.\<close>

record sampling =
  max_tokens :: int
  temperature :: real
  top_p :: real
  frequency_penalty :: real
  presence_penalty :: real
  stop :: "string list option"

record generate_request =
  req_prompt :: string
  req_model_name :: "string option"
  req_user_id :: "int option"
  req_sampling :: sampling

record payload =
  payload_prompt :: string
  payload_model :: string
  payload_sampling :: sampling

record backend_json =
  json_error :: "string option"
  json_response :: "string option"
  json_prompt_tokens :: "int option"
  json_completion_tokens :: "int option"

text \<open>
  \<open>client.post\<close> raises (timeout, transport error) or answers a status code and a body
  on which \<open>response.json()\<close> raises or yields a dictionary.
\<close>

datatype post_reply = Post_raises py_exception | Post_response int "py_exception + backend_json"

text \<open>
  What the orchestrator reads from outside: the digest function, the clocks
  (\<open>start_time\<close> is the reading \<open>generate\<close> takes on entry, \<open>time_time\<close> the later
  reading of \<open>time.time()\<close>, \<open>utc_now\<close> that of \<open>datetime.utcnow()\<close>), the backend,
  and the database: \<open>db_commit env qs\<close> is what \<open>await db.commit()\<close> answers when the
  session would leave the table \<open>queries\<close> as \<open>qs\<close>, the exception it raises if the
  database or the session refuses (a value outside the range of an \<open>Integer\<close> column,
  a missing foreign key, a session whose last flush failed).
\<close>

record environment =
  hash_md5 :: "string \<Rightarrow> 128 word"
  start_time :: real
  time_time :: real
  utc_now :: real
  http_post :: "ServerNode \<Rightarrow> payload \<Rightarrow> post_reply"
  db_commit :: "Query list \<Rightarrow> py_exception option"

text \<open>\<open>log_query\<close> (utils.py, lines 172-200): a new PENDING row with the next id.\<close>

definition log_query ::
  "environment \<Rightarrow> Query list \<Rightarrow> int option \<Rightarrow> int \<Rightarrow> string \<Rightarrow> py_exception + (int \<times> Query list)" where
  "log_query env qs uid mid text =
     (let qid = fold max (map query_id qs) 0 + 1;
          qs' = qs @
           [\<lparr>query_id = qid, query_user_id = uid, query_model_id = mid, query_prompt = text,
             query_response = None, query_status = PENDING, token_count_prompt = 0,
             token_count_response = 0, processing_time_ms = 0, query_completed_at = None,
             query_cached = False, query_cache_key = None, error_message = None\<rparr>]
      in case db_commit env qs' of Some e \<Rightarrow> Inl e | None \<Rightarrow> Inr (qid, qs'))"

text \<open>
  \<open>getattr(QueryStatus, status.upper(), QueryStatus.COMPLETED)\<close>. \<open>upper\<close> is
  \<open>str.upper\<close> on the letters a to z; status names are ASCII text (\<open>generate\<close> passes
  \<open>"completed"\<close> and \<open>"failed"\<close> only).
\<close>

definition upper :: "string \<Rightarrow> string" where
  "upper s =
     map (\<lambda>c. case map_of (zip ''abcdefghijklmnopqrstuvwxyz'' ''ABCDEFGHIJKLMNOPQRSTUVWXYZ'') c of
                 None \<Rightarrow> c | Some d \<Rightarrow> d) s"

definition query_status_of :: "string \<Rightarrow> QueryStatus" where
  "query_status_of s =
     (if upper s = ''PENDING'' then PENDING
      else if upper s = ''PROCESSING'' then PROCESSING
      else if upper s = ''COMPLETED'' then QUERY_COMPLETED
      else if upper s = ''FAILED'' then QUERY_FAILED
      else if upper s = ''CACHED'' then CACHED
      else QUERY_COMPLETED)"

text \<open>
  \<open>update_query_response\<close> (utils.py, lines 202-243): returns at once when no row has
  the id; otherwise writes the row and commits.
\<close>

definition update_query_response ::
  "environment \<Rightarrow> Query list \<Rightarrow> int \<Rightarrow> string \<Rightarrow> int \<Rightarrow> int \<Rightarrow> real \<Rightarrow> string \<Rightarrow> bool \<Rightarrow> string option
     \<Rightarrow> string option \<Rightarrow> py_exception + Query list" where
  "update_query_response env qs qid text ptokens ctokens ms status_name cached_flag key err =
     (case find (\<lambda>q. query_id q = qid) qs of
        None \<Rightarrow> Inr qs
      | Some _ \<Rightarrow>
          (let qs' = map (\<lambda>q. if query_id q \<noteq> qid then q
                              else q\<lparr>query_response := Some text,
                                     query_status := query_status_of status_name,
                                     token_count_prompt := ptokens,
                                     token_count_response := ctokens,
                                     processing_time_ms := ms,
                                     query_completed_at := Some (utc_now env),
                                     query_cached := cached_flag,
                                     query_cache_key := (if truthy key then key else query_cache_key q),
                                     error_message := (if truthy err then err else error_message q)\<rparr>) qs
           in case db_commit env qs' of Some e \<Rightarrow> Inl e | None \<Rightarrow> Inr qs'))"

text \<open>The update of the status to PROCESSING and its commit (lines 195-201).\<close>

definition set_query_status :: "environment \<Rightarrow> int \<Rightarrow> QueryStatus \<Rightarrow> Query list \<Rightarrow> py_exception + Query list" where
  "set_query_status env qid st qs =
     (let qs' = map (\<lambda>q. if query_id q = qid then q\<lparr>query_status := st\<rparr> else q) qs
      in case db_commit env qs' of Some e \<Rightarrow> Inl e | None \<Rightarrow> Inr qs')"

text \<open>
  \<open>compute_cache_key\<close> (utils.py, lines 245-250): the hexadecimal digest of
  \<open>prompt:model\<close>, thirty-two characters.
\<close>

definition hex_digit :: "nat \<Rightarrow> char" where
  "hex_digit n = ''0123456789abcdef'' ! n"

definition hexdigest :: "128 word \<Rightarrow> string" where
  "hexdigest w = map (\<lambda>i. hex_digit (unat (take_bit 4 (drop_bit (4 * (31 - i)) w)))) [0..<32]"

definition compute_cache_key :: "(string \<Rightarrow> 128 word) \<Rightarrow> string \<Rightarrow> string \<Rightarrow> string" where
  "compute_cache_key md5 text model = hexdigest (md5 (text @ '':'' @ model))"

text \<open>
  The cache as the orchestrator holds it (\<open>self.semantic_cache\<close>): an object with
  the methods \<open>get\<close> and \<open>add\<close>, each answering an exception or its result and the
  table it leaves. \<open>SemanticCache\<close> is the repository's cache as such an object, all
  of its clock readings being \<open>utcnow\<close>.
\<close>

record semantic_cache =
  cache_get :: "SemanticCacheEntry list \<Rightarrow> string \<Rightarrow> int \<Rightarrow> string option
                  \<Rightarrow> py_exception + (cached_response option \<times> SemanticCacheEntry list)"
  cache_add :: "SemanticCacheEntry list \<Rightarrow> string \<Rightarrow> string \<Rightarrow> int \<Rightarrow> int \<Rightarrow> int \<Rightarrow> string option
                  \<Rightarrow> py_exception + SemanticCacheEntry list"


record orchestrator =
  llm_models :: "LLMModel list"
  queries :: "Query list"
  semantic_cache_table :: "SemanticCacheEntry list"
  balancer :: load_balancer

record generation_success =
  res_response :: string
  res_model :: string
  res_prompt_tokens :: int
  res_completion_tokens :: int
  res_total_tokens :: int
  res_processing_time_ms :: real
  res_query_id :: int
  res_cached :: bool

text \<open>
  The dictionary \<open>generate\<close> returns: the success payload, or
  \<open>{"error": ..., "success": False}\<close>.
\<close>

datatype generation_result = Generated generation_success | Generation_error string

text \<open>Model resolution (lines 107-129): the requested name, then the default.\<close>

definition requested_name :: "settings \<Rightarrow> string option \<Rightarrow> string" where
  "requested_name cfg name =
     (case name of None \<Rightarrow> LLM_DEFAULT_MODEL cfg
      | Some n \<Rightarrow> if n = [] then LLM_DEFAULT_MODEL cfg else n)"

definition resolve_model :: "settings \<Rightarrow> LLMModel list \<Rightarrow> string option \<Rightarrow> LLMModel option" where
  "resolve_model cfg ms name =
     (case find (\<lambda>m. model_name m = requested_name cfg name) ms of
        Some m \<Rightarrow> Some m
      | None \<Rightarrow> find (\<lambda>m. model_name m = LLM_DEFAULT_MODEL cfg) ms)"

text \<open>
  A failure exit: the request is marked failed with the error text and the error
  dictionary is returned; an exception of the update leaves the exit.
\<close>

definition fail_request ::
  "environment \<Rightarrow> int \<Rightarrow> string \<Rightarrow> real \<Rightarrow> orchestrator \<Rightarrow> (py_exception + generation_result) \<times> orchestrator" where
  "fail_request env qid msg ms st =
     (case update_query_response env (queries st) qid [] 0 0 ms ''failed'' False None (Some msg) of
        Inl e \<Rightarrow> (Inl e, st)
      | Inr qs \<Rightarrow> (Inr (Generation_error msg), st\<lparr>queries := qs\<rparr>))"

text \<open>
  The \<open>except Exception\<close> clause (lines 323-341) for an exception \<open>e\<close> raised inside
  the \<open>try\<close> block.
\<close>

definition except_clause ::
  "environment \<Rightarrow> int \<Rightarrow> py_exception \<Rightarrow> orchestrator \<Rightarrow> (py_exception + generation_result) \<times> orchestrator" where
  "except_clause env qid e st =
     fail_request env qid (''Error: '' @ str e) ((time_time env - start_time env) * 1000) st"

text \<open>
  A failure exit inside the \<open>try\<close> block (lines 236-277): an exception of its update
  is caught by the \<open>except\<close> clause.
\<close>

definition fail_in_try ::
  "environment \<Rightarrow> int \<Rightarrow> string \<Rightarrow> orchestrator \<Rightarrow> (py_exception + generation_result) \<times> orchestrator" where
  "fail_in_try env qid msg st =
     (case fail_request env qid msg ((time_time env - start_time env) * 1000) st of
        (Inl e, st') \<Rightarrow> except_clause env qid e st'
      | (Inr r, st') \<Rightarrow> (Inr r, st'))"

text \<open>
  \<open>_generate_with_db\<close> from the server selection on (lines 179-341). \<open>cache\<close> is the
  cache object when the cache is in use. An exception of \<open>get_server\<close>, of the update
  for a missing server or of the update to PROCESSING is outside the \<open>try\<close> block and
  leaves the function; everything from \<open>client.post\<close> to the cache write is inside it,
  and an exception there takes the \<open>except\<close> clause.
\<close>

definition dispatch ::
  "environment \<Rightarrow> semantic_cache option \<Rightarrow> generate_request \<Rightarrow> LLMModel \<Rightarrow> int \<Rightarrow> string option
     \<Rightarrow> orchestrator \<Rightarrow> (py_exception + generation_result) \<times> orchestrator" where
  "dispatch env cache req model qid key st =
     (case get_server (time_time env) (model_name model) (balancer st) of
        Inl e \<Rightarrow> (Inl e, st)
      | Inr (None, lb) \<Rightarrow> fail_request env qid ''No suitable server available'' 0 (st\<lparr>balancer := lb\<rparr>)
      | Inr (Some server, lb) \<Rightarrow>
          (case set_query_status env qid PROCESSING (queries st) of
             Inl e \<Rightarrow> (Inl e, st\<lparr>balancer := lb\<rparr>)
           | Inr qs1 \<Rightarrow>
          (let st1 = st\<lparr>balancer := lb, queries := qs1\<rparr>
           in case http_post env server
                     \<lparr>payload_prompt = req_prompt req, payload_model = model_name model,
                      payload_sampling = req_sampling req\<rparr> of
                Post_raises e \<Rightarrow> except_clause env qid e st1
              | Post_response code body \<Rightarrow>
                  if code \<noteq> 200 then fail_in_try env qid (''LLM server error: HTTP '' @ str_int code) st1
                  else (case body of
                     Inl e \<Rightarrow> except_clause env qid e st1
                   | Inr js \<Rightarrow>
                       (case json_error js of
                          Some err \<Rightarrow> fail_in_try env qid (''LLM server error: '' @ err) st1
                        | None \<Rightarrow>
                            (let text = (case json_response js of None \<Rightarrow> [] | Some r \<Rightarrow> r);
                                 ptokens = (case json_prompt_tokens js of None \<Rightarrow> 0 | Some n \<Rightarrow> n);
                                 ctokens = (case json_completion_tokens js of None \<Rightarrow> 0 | Some n \<Rightarrow> n);
                                 ms = (time_time env - start_time env) * 1000
                             in case update_query_response env (queries st1) qid text ptokens ctokens ms
                                       ''completed'' False key None of
                                  Inl e \<Rightarrow> except_clause env qid e st1
                                | Inr qs2 \<Rightarrow>
                                    (let st2 = st1\<lparr>queries := qs2\<rparr>
                                     in case (case cache of
                                                None \<Rightarrow> Inr (semantic_cache_table st2)
                                              | Some c \<Rightarrow> cache_add c (semantic_cache_table st2) (req_prompt req)
                                                            text (model_id model) ptokens ctokens key) of
                                          Inl e \<Rightarrow> except_clause env qid e st2
                                        | Inr tbl \<Rightarrow>
                                            (Inr (Generated
                                               \<lparr>res_response = text, res_model = model_name model,
                                                res_prompt_tokens = ptokens, res_completion_tokens = ctokens,
                                                res_total_tokens = ptokens + ctokens,
                                                res_processing_time_ms = ms,
                                                res_query_id = qid, res_cached = False\<rparr>),
                                             st2\<lparr>semantic_cache_table := tbl\<rparr>))))))))"

text \<open>
  \<open>generate\<close> with \<open>_generate_with_db\<close> (lines 33-177). \<open>cache\<close> is
  \<open>self.semantic_cache\<close>; it is consulted when \<open>settings.ENABLE_SEMANTIC_CACHE\<close> holds.
  The calls of \<open>log_query\<close> (line 132) and of \<open>self.semantic_cache.get\<close> (line 148)
  are outside every \<open>try\<close> block.
\<close>

definition generate ::
  "settings \<Rightarrow> environment \<Rightarrow> semantic_cache option \<Rightarrow> generate_request \<Rightarrow> orchestrator
     \<Rightarrow> (py_exception + generation_result) \<times> orchestrator" where
  "generate cfg env cache req st =
     (case resolve_model cfg (llm_models st) (req_model_name req) of
        None \<Rightarrow> (Inr (Generation_error ''Model not found''), st)
      | Some model \<Rightarrow>
          (case log_query env (queries st) (req_user_id req) (model_id model) (req_prompt req) of
             Inl e \<Rightarrow> (Inl e, st)
           | Inr (qid, qs) \<Rightarrow>
          (let st1 = st\<lparr>queries := qs\<rparr>
           in case (if ENABLE_SEMANTIC_CACHE cfg then cache else None) of
                None \<Rightarrow> dispatch env None req model qid None st1
              | Some c \<Rightarrow>
                  (let key = Some (compute_cache_key (hash_md5 env) (req_prompt req) (model_name model))
                   in case cache_get c (semantic_cache_table st1) (req_prompt req) (model_id model) key of
                        Inl e \<Rightarrow> (Inl e, st1)
                      | Inr (Some hit, tbl) \<Rightarrow>
                          (let ms = (time_time env - start_time env) * 1000;
                               st2 = st1\<lparr>semantic_cache_table := tbl\<rparr>
                           in case update_query_response env (queries st2) qid (response hit)
                                     (prompt_tokens hit) (completion_tokens hit) ms ''completed'' True
                                     key None of
                                Inl e \<Rightarrow> (Inl e, st2)
                              | Inr qs2 \<Rightarrow>
                                  (Inr (Generated
                                     \<lparr>res_response = response hit, res_model = model_name model,
                                      res_prompt_tokens = prompt_tokens hit,
                                      res_completion_tokens = completion_tokens hit,
                                      res_total_tokens = prompt_tokens hit + completion_tokens hit,
                                      res_processing_time_ms = ms, res_query_id = qid, res_cached = True\<rparr>),
                                   st2\<lparr>queries := qs2\<rparr>))
                      | Inr (None, tbl) \<Rightarrow>
                          dispatch env (Some c) req model qid key (st1\<lparr>semantic_cache_table := tbl\<rparr>)))))"

section \<open>Example states\<close>

text \<open>Concrete jobs, nodes, balancers and requests on which the theorems below are instantiated.\<close>

definition job :: "int \<Rightarrow> FineTuningJobStatus \<Rightarrow> FineTuningJob" where
  "job i st = \<lparr>job_id = i, job_user_id = 1, base_model_id = 1, status = st,
     created_at = i, started_at = Some 5, completed_at = None\<rparr>"

definition node :: "int \<Rightarrow> string \<Rightarrow> ServerNode" where
  "node i h = \<lparr>server_id = i, server_name = ''n'', host = ''h'', port = 8080, api_key = None,
     gpu_count = 1, gpu_memory = 24, is_active = True, health_status = h\<rparr>"

definition example_balancer :: load_balancer where
  "example_balancer =
   \<lparr>servers = [node 1 ''healthy'', node 2 ''offline'', node 3 ''healthy'', node 4 ''healthy''],
    server_metrics = Map.empty, last_server_index = 0, load_balancing_strategy = ''round_robin'',
    server_nodes = [], server_load_metrics = []\<rparr>"

definition example_node :: ServerNode where
  "example_node = \<lparr>server_id = 1, server_name = ''gpu-a'', host = ''10.0.0.1'', port = 8080,
     api_key = None, gpu_count = 1, gpu_memory = 24, is_active = True, health_status = ''healthy''\<rparr>"

definition example_pool :: load_balancer where
  "example_pool =
   \<lparr>servers = [example_node, node 2 ''offline''],
    server_metrics = [1 \<mapsto> [''active_requests'' \<mapsto> 5, ''queue_depth'' \<mapsto> 2],
                      2 \<mapsto> [''active_requests'' \<mapsto> 7]],
    last_server_index = - 1, load_balancing_strategy = ''least_load'',
    server_nodes = [example_node, node 2 ''offline''], server_load_metrics = []\<rparr>"

definition unreachable :: "ServerNode \<Rightarrow> metrics_reply" where
  "unreachable server = Get_raises (Raised ''ConnectTimeout'' ''timed out'')"

definition commit_accepted :: "ServerLoadMetrics list \<Rightarrow> py_exception option" where
  "commit_accepted rows = None"

definition example_settings :: settings where
  "example_settings =
     \<lparr>ENABLE_SEMANTIC_CACHE = True, SEMANTIC_CACHE_EXPIRY_SECONDS = 3600,
      SEMANTIC_CACHE_SIMILARITY_THRESHOLD = 95 / 100, LLM_DEFAULT_MODEL = ''mistral-7b''\<rparr>"


definition example_md5 :: "string \<Rightarrow> 128 word" where
  "example_md5 text = 0xFFFF0000000000000000000000000000"

definition cache_entry :: "int \<Rightarrow> stored_embedding \<Rightarrow> string \<Rightarrow> real \<Rightarrow> SemanticCacheEntry" where
  "cache_entry i v r x =
     \<lparr>entry_id = i, query_text = ''q'', query_embedding = v, response_text = r, entry_model_id = 1,
      entry_created_at = 0, expires_at = x, hit_count = 0\<rparr>"

definition example_table :: "SemanticCacheEntry list" where
  "example_table =
     [cache_entry 1 (Embedding_vector [1, 0, 0, 0, 0, 0, 0, 0, 0, 0, 0, 0, 0, 0, 0, 0]) ''first'' 5,
      cache_entry 2 (Embedding_vector [1, 0, 0, 0, 0, 0, 0, 0, 0, 0, 0, 0, 0, 0, 0, 0]) ''second'' 100]"

definition example_environment :: environment where
  "example_environment =
     \<lparr>hash_md5 = example_md5, start_time = 0, time_time = 1, utc_now = 10,
      http_post = (\<lambda>server p. Post_response 200
         (Inr \<lparr>json_error = None, json_response = Some ''answer'',
               json_prompt_tokens = Some 3, json_completion_tokens = Some 5\<rparr>)),
      db_commit = (\<lambda>qs. None)\<rparr>"

definition example_request :: generate_request where
  "example_request =
     \<lparr>req_prompt = ''Explain X'', req_model_name = Some ''m1'', req_user_id = None,
      req_sampling = \<lparr>max_tokens = 1024, temperature = 7 / 10, top_p = 1, frequency_penalty = 0,
                      presence_penalty = 0, stop = None\<rparr>\<rparr>"


definition example_orchestrator :: "LLMModel list \<Rightarrow> SemanticCacheEntry list \<Rightarrow> orchestrator" where
  "example_orchestrator ms tbl =
     \<lparr>llm_models = ms, queries = [], semantic_cache_table = tbl, balancer = example_balancer\<rparr>"


section \<open>Properties of the fine-tuning scheduler\<close>

lemma get_db_refused: "async_with get_db = Inl generator_TypeError"
  by (simp add: get_db_def)

lemma resume_jobs_raises: "resume_jobs js = Inl generator_TypeError"
  by (simp add: resume_jobs_def get_db_refused)

lemma restart_state: "restart s = FineTuningManager (jobs s) (model_ids s) (user_ids s)"
  by (simp add: restart_def initialize_def resume_jobs_raises FineTuningManager_def)





text \<open>
  C4. Restart recovery is claimed to reset every PREPARING or RUNNING job to QUEUED.
  Evaluated on a table holding one PREPARING and one RUNNING job: \<open>_resume_jobs\<close>
  raises \<open>TypeError\<close> when it opens its session, \<open>initialize\<close> raises with it, and
  after the restart both jobs have the status they had, the polling loop not created.
\<close>

theorem resume_jobs_resets_nothing:
  "resume_jobs [job 1 PREPARING, job 2 RUNNING] = Inl generator_TypeError
   \<and> initialize (FineTuningManager [job 1 PREPARING, job 2 RUNNING] [1] [1]) = Inl generator_TypeError
   \<and> map status (jobs (step (FineTuningManager [job 1 PREPARING, job 2 RUNNING] [1] [1]) Restart))
       = [PREPARING, RUNNING]
   \<and> \<not> loop_running (step (FineTuningManager [job 1 PREPARING, job 2 RUNNING] [1] [1]) Restart)"
  by (simp add: resume_jobs_raises initialize_def restart_state FineTuningManager_def job_def)

section \<open>Properties of the load balancer\<close>

lemma rr_step:
  assumes "svs \<noteq> []"
  shows "round_robin_strategy svs lb =
     Inr (svs ! nat ((last_server_index lb + 1) mod int (length svs)),
          lb\<lparr>last_server_index := (last_server_index lb + 1) mod int (length svs)\<rparr>)"
  using assms by (simp add: round_robin_strategy_def Let_def)

lemma get_server_rr:
  assumes "load_balancing_strategy lb \<noteq> ''least_load''" "load_balancing_strategy lb \<noteq> ''gpu_memory''"
    and "filter (\<lambda>s. health_status s = ''healthy'') (servers lb) = hs" "hs \<noteq> []"
  shows "get_server now m lb =
     Inr (Some (hs ! nat ((last_server_index lb + 1) mod int (length hs))),
          lb\<lparr>last_server_index := (last_server_index lb + 1) mod int (length hs)\<rparr>)"
proof -
  have ne: "servers lb \<noteq> []" using assms(3,4) by auto
  show ?thesis
    using assms ne by (simp add: get_server_def Let_def rr_step)
qed

lemma get_server_times_rr:
  assumes "load_balancing_strategy lb \<noteq> ''least_load''" "load_balancing_strategy lb \<noteq> ''gpu_memory''"
    and "filter (\<lambda>s. health_status s = ''healthy'') (servers lb) = hs" "hs \<noteq> []"
  shows "get_server_times n now m lb =
     Inr (map (\<lambda>j. Some (hs ! nat ((last_server_index lb + 1 + int j) mod int (length hs)))) [0..<n],
          if n = 0 then lb else lb\<lparr>last_server_index := (last_server_index lb + int n) mod int (length hs)\<rparr>)"
  using assms
proof (induction n arbitrary: lb)
  case 0
  then show ?case by simp
next
  case (Suc n)
  let ?lb1 = "lb\<lparr>last_server_index := (last_server_index lb + 1) mod int (length hs)\<rparr>"
  have g: "get_server now m lb = Inr (Some (hs ! nat ((last_server_index lb + 1) mod int (length hs))), ?lb1)"
    using Suc.prems by (rule get_server_rr)
  have ih: "get_server_times n now m ?lb1 =
     Inr (map (\<lambda>j. Some (hs ! nat ((last_server_index ?lb1 + 1 + int j) mod int (length hs)))) [0..<n],
          if n = 0 then ?lb1 else ?lb1\<lparr>last_server_index := (last_server_index ?lb1 + int n) mod int (length hs)\<rparr>)"
    by (rule Suc.IH) (use Suc.prems in simp_all)
  have idx: "((last_server_index lb + 1) mod int (length hs) + 1 + int j) mod int (length hs)
     = (last_server_index lb + 1 + int (Suc j)) mod int (length hs)" for j
  proof -
    have "((last_server_index lb + 1) mod int (length hs) + (1 + int j)) mod int (length hs)
       = ((last_server_index lb + 1) + (1 + int j)) mod int (length hs)"
      by (rule mod_add_left_eq)
    then show ?thesis by (simp add: add.assoc)
  qed
  have idx2: "((last_server_index lb + 1) mod int (length hs) + int n) mod int (length hs)
     = (last_server_index lb + int (Suc n)) mod int (length hs)"
  proof -
    have "((last_server_index lb + 1) mod int (length hs) + int n) mod int (length hs)
       = ((last_server_index lb + 1) + int n) mod int (length hs)"
      by (rule mod_add_left_eq)
    then show ?thesis by (simp add: ac_simps)
  qed
  have m: "map (\<lambda>j. Some (hs ! nat ((last_server_index lb + 1 + int j) mod int (length hs)))) [0..<Suc n]
     = Some (hs ! nat ((last_server_index lb + 1) mod int (length hs))) #
       map (\<lambda>j. Some (hs ! nat ((last_server_index lb + 1 + int (Suc j)) mod int (length hs)))) [0..<n]"
    by (simp add: map_upt_Suc del: upt_Suc)
  show ?case
    by (simp add: g ih idx idx2 m del: upt_Suc)
qed

lemma rotate_as_map:
  assumes "hs \<noteq> []" and "k = nat ((i + 1) mod int (length hs))"
  shows "map (\<lambda>j. hs ! nat ((i + 1 + int j) mod int (length hs))) [0..<length hs] = rotate k hs"
proof (rule nth_equalityI)
  show "length (map (\<lambda>j. hs ! nat ((i + 1 + int j) mod int (length hs))) [0..<length hs]) = length (rotate k hs)"
    by simp
next
  fix j assume "j < length (map (\<lambda>j. hs ! nat ((i + 1 + int j) mod int (length hs))) [0..<length hs])"
  then have j: "j < length hs" by simp
  have pos: "0 < int (length hs)" using assms(1) by simp
  have k0: "int k = (i + 1) mod int (length hs)"
    using assms(2) pos by simp
  have "int ((k + j) mod length hs) = (int k + int j) mod int (length hs)"
    by (simp add: zmod_int)
  also have "\<dots> = ((i + 1) mod int (length hs) + int j) mod int (length hs)"
    by (simp only: k0)
  also have "\<dots> = (i + 1 + int j) mod int (length hs)"
    by (rule mod_add_left_eq)
  finally have "nat ((i + 1 + int j) mod int (length hs)) = (k + j) mod length hs"
    by simp
  then show "map (\<lambda>j. hs ! nat ((i + 1 + int j) mod int (length hs))) [0..<length hs] ! j = rotate k hs ! j"
    using j by (simp add: nth_rotate)
qed

text \<open>
  C9. With the round-robin strategy (the default, and the fallback for an unknown
  strategy name) and a non-empty list \<open>hs\<close> of healthy nodes, \<open>length hs\<close>
  consecutive calls of \<open>get_server\<close> return the nodes of \<open>hs\<close> in registration
  order, cyclically, starting after the position the index holds: every node exactly
  once. The index advances by one modulo \<open>length hs\<close> per call and is kept in the
  balancer, so the next round repeats the same order. A fresh balancer (index \<open>-1\<close>)
  starts at the first node.
\<close>

theorem round_robin_visits_each_once:
  assumes "load_balancing_strategy lb \<noteq> ''least_load''"
    and "load_balancing_strategy lb \<noteq> ''gpu_memory''"
    and "filter (\<lambda>s. health_status s = ''healthy'') (servers lb) = hs"
    and "hs \<noteq> []"
    and "k = nat ((last_server_index lb + 1) mod int (length hs))"
  shows "get_server_times (length hs) now m lb =
           Inr (map Some (rotate k hs),
                lb\<lparr>last_server_index := last_server_index lb mod int (length hs)\<rparr>)
         \<and> (last_server_index lb = - 1 \<longrightarrow> rotate k hs = hs)"
proof -
  have n0: "length hs \<noteq> 0" using assms(4) by simp
  have "get_server_times (length hs) now m lb =
     Inr (map (\<lambda>j. Some (hs ! nat ((last_server_index lb + 1 + int j) mod int (length hs)))) [0..<length hs],
          lb\<lparr>last_server_index := (last_server_index lb + int (length hs)) mod int (length hs)\<rparr>)"
    using get_server_times_rr[OF assms(1-4), of "length hs" now m] n0 by simp
  moreover have "map (\<lambda>j. Some (hs ! nat ((last_server_index lb + 1 + int j) mod int (length hs)))) [0..<length hs]
      = map Some (rotate k hs)"
  proof -
    have "map (\<lambda>j. Some (hs ! nat ((last_server_index lb + 1 + int j) mod int (length hs)))) [0..<length hs]
      = map Some (map (\<lambda>j. hs ! nat ((last_server_index lb + 1 + int j) mod int (length hs))) [0..<length hs])"
      by simp
    then show ?thesis by (simp only: rotate_as_map[OF assms(4,5)])
  qed
  moreover have "(last_server_index lb + int (length hs)) mod int (length hs) = last_server_index lb mod int (length hs)"
    by simp
  moreover have "last_server_index lb = - 1 \<longrightarrow> rotate k hs = hs"
    using assms(5) by simp
  ultimately show ?thesis by simp
qed

text \<open>C9 on a pool of three healthy nodes and one offline node, the index at 0.\<close>

theorem round_robin_visits_each_once_witness:
  "get_server_times 3 0 ''m'' example_balancer =
     Inr ([Some (node 3 ''healthy''), Some (node 4 ''healthy''), Some (node 1 ''healthy'')], example_balancer)"
proof -
  let ?hs = "[node 1 ''healthy'', node 3 ''healthy'', node 4 ''healthy'']"
  have a: "load_balancing_strategy example_balancer \<noteq> ''least_load''"
    by (simp add: example_balancer_def)
  have b: "load_balancing_strategy example_balancer \<noteq> ''gpu_memory''"
    by (simp add: example_balancer_def)
  have c: "filter (\<lambda>s. health_status s = ''healthy'') (servers example_balancer) = ?hs"
    by (simp add: example_balancer_def node_def)
  have d: "?hs \<noteq> []" by simp
  have e: "(1::nat) = nat ((last_server_index example_balancer + 1) mod int (length ?hs))"
    by (simp add: example_balancer_def)
  have l: "length ?hs = 3" by simp
  have r: "rotate 1 ?hs = [node 3 ''healthy'', node 4 ''healthy'', node 1 ''healthy'']"
    by simp
  have i: "example_balancer\<lparr>last_server_index := last_server_index example_balancer mod int 3\<rparr> = example_balancer"
    by (simp add: example_balancer_def)
  have "get_server_times (length ?hs) 0 ''m'' example_balancer =
           Inr (map Some (rotate 1 ?hs),
                example_balancer\<lparr>last_server_index := last_server_index example_balancer mod int (length ?hs)\<rparr>)"
    using round_robin_visits_each_once[OF a b c d e, of 0 "''m''"] by (rule conjunct1)
  then show ?thesis
    unfolding l r i by simp
qed

lemma failed_default: "fetch_failed g s \<Longrightarrow> get_server_load_metrics g s = Json_object (default_metrics s)"
  by (auto simp: fetch_failed_def get_server_load_metrics_def split: metrics_reply.splits option.splits)

lemma loop_skips:
  "list_all (\<lambda>t. server_id t \<noteq> i \<or> health_status t \<noteq> ''healthy'') svs \<Longrightarrow>
   collect_loop g c (sm, rows) svs = (x, sm', rows') \<Longrightarrow> sm' i = sm i"
proof (induction svs arbitrary: sm rows)
  case Nil
  then show ?case by simp
next
  case (Cons a svs)
  from Cons.prems(1) have rest: "list_all (\<lambda>t. server_id t \<noteq> i \<or> health_status t \<noteq> ''healthy'') svs"
    and a: "server_id a \<noteq> i \<or> health_status a \<noteq> ''healthy''" by simp_all
  show ?case
  proof (cases "health_status a \<noteq> ''healthy''")
    case True
    with Cons.prems(2) have "collect_loop g c (sm, rows) svs = (x, sm', rows')" by simp
    from Cons.IH[OF rest this] show ?thesis .
  next
    case False
    with a have ne: "server_id a \<noteq> i" by simp
    show ?thesis
    proof (cases "get_server_load_metrics g a")
      case (Json_other tp)
      with False Cons.prems(2) show ?thesis by simp
    next
      case (Json_object m)
      with False Cons.prems(2)
      have "collect_loop g c (sm(server_id a \<mapsto> m(''last_updated'' \<mapsto> c a)), rows @ [load_row a m]) svs
              = (x, sm', rows')" by simp
      from Cons.IH[OF rest this] ne show ?thesis by simp
    qed
  qed
qed

lemma loop_keeps_rows:
  "collect_loop g c (sm, rows) svs = (x, sm', rows') \<Longrightarrow> set rows \<subseteq> set rows'"
proof (induction svs arbitrary: sm rows)
  case Nil
  then show ?case by simp
next
  case (Cons a svs)
  show ?case
  proof (cases "health_status a \<noteq> ''healthy''")
    case True
    with Cons.prems have "collect_loop g c (sm, rows) svs = (x, sm', rows')" by simp
    from Cons.IH[OF this] show ?thesis .
  next
    case False
    show ?thesis
    proof (cases "get_server_load_metrics g a")
      case (Json_other tp)
      with False Cons.prems show ?thesis by simp
    next
      case (Json_object m)
      with False Cons.prems
      have "collect_loop g c (sm(server_id a \<mapsto> m(''last_updated'' \<mapsto> c a)), rows @ [load_row a m]) svs
              = (x, sm', rows')" by simp
      from Cons.IH[OF this] show ?thesis by simp
    qed
  qed
qed

lemma loop_replaces:
  "distinct (map server_id svs) \<Longrightarrow> s \<in> set svs \<Longrightarrow> health_status s = ''healthy'' \<Longrightarrow>
   get_server_load_metrics g s = Json_object m \<Longrightarrow>
   collect_loop g c (sm, rows) svs = (None, sm', rows') \<Longrightarrow>
   sm' (server_id s) = Some (m(''last_updated'' \<mapsto> c s)) \<and> load_row s m \<in> set rows'"
proof (induction svs arbitrary: sm rows)
  case Nil
  then show ?case by simp
next
  case (Cons a svs)
  show ?case
  proof (cases "s = a")
    case True
    let ?sm1 = "sm(server_id a \<mapsto> m(''last_updated'' \<mapsto> c a))"
    from True Cons.prems(3,4,5)
    have run: "collect_loop g c (?sm1, rows @ [load_row a m]) svs = (None, sm', rows')" by simp
    have "list_all (\<lambda>t. server_id t \<noteq> server_id a \<or> health_status t \<noteq> ''healthy'') svs"
      using Cons.prems(1) by (auto simp: list_all_iff image_iff)
    from loop_skips[OF this run] have 1: "sm' (server_id a) = Some (m(''last_updated'' \<mapsto> c a))" by simp
    from loop_keeps_rows[OF run] have 2: "load_row a m \<in> set rows'" by auto
    show ?thesis unfolding True by (rule conjI[OF 1 2])
  next
    case False
    then have mem: "s \<in> set svs" using Cons.prems(2) by simp
    have dist: "distinct (map server_id svs)" using Cons.prems(1) by simp
    show ?thesis
    proof (cases "health_status a \<noteq> ''healthy''")
      case True
      with Cons.prems(5) have "collect_loop g c (sm, rows) svs = (None, sm', rows')" by simp
      from Cons.IH[OF dist mem Cons.prems(3,4) this] show ?thesis .
    next
      case False
      show ?thesis
      proof (cases "get_server_load_metrics g a")
        case (Json_other tp)
        with False Cons.prems(5) show ?thesis by simp
      next
        case (Json_object ma)
        with False Cons.prems(5)
        have "collect_loop g c (sm(server_id a \<mapsto> ma(''last_updated'' \<mapsto> c a)), rows @ [load_row a ma]) svs
                = (None, sm', rows')" by simp
        from Cons.IH[OF dist mem Cons.prems(3,4) this] show ?thesis .
      qed
    qed
  qed
qed

text \<open>
  C5 as amended. The cached snapshot of a healthy node whose fetch fails is claimed to
  stay as it was. \<open>get_server_load_metrics\<close> answers a failed fetch with the default
  dictionary and the loop stores it: in every iteration that ends without an exception
  (node ids distinct), the snapshot of such a node is replaced by the defaults stamped
  with the current time and a row with the defaults is persisted. A node id none of
  whose listed servers is healthy keeps its snapshot.
\<close>

theorem failed_fetch_overwrites_snapshot:
  assumes "distinct (map server_id (servers lb))"
    and "s \<in> set (servers lb)"
    and "health_status s = ''healthy''"
    and "fetch_failed http_get s"
    and "collect_all_server_metrics http_get clock commit lb = (None, lb')"
    and "list_all (\<lambda>t. server_id t \<noteq> u \<or> health_status t \<noteq> ''healthy'') (servers lb)"
  shows "server_metrics lb' (server_id s) = Some ((default_metrics s)(''last_updated'' \<mapsto> clock s))
       \<and> load_row s (default_metrics s) \<in> set (server_load_metrics lb')
       \<and> server_metrics lb' u = server_metrics lb u"
proof -
  obtain x sm rows where loop: "collect_loop http_get clock (server_metrics lb, []) (servers lb) = (x, sm, rows)"
    by (cases "collect_loop http_get clock (server_metrics lb, []) (servers lb)") auto
  from assms(5) loop have x: "x = None"
    by (cases x) (simp_all add: collect_all_server_metrics_def)
  from assms(5) loop x have lb': "lb' = lb\<lparr>server_metrics := sm, server_load_metrics := server_load_metrics lb @ rows\<rparr>"
    by (cases "commit rows") (simp_all add: collect_all_server_metrics_def)
  have d: "get_server_load_metrics http_get s = Json_object (default_metrics s)"
    using assms(4) by (rule failed_default)
  from loop_replaces[OF assms(1,2,3) d loop[unfolded x]]
  have 1: "sm (server_id s) = Some ((default_metrics s)(''last_updated'' \<mapsto> clock s))"
    and 2: "load_row s (default_metrics s) \<in> set rows" by simp_all
  from loop_skips[OF assms(6) loop] have 3: "sm u = server_metrics lb u" .
  from 1 2 3 show ?thesis by (simp add: lb')
qed

lemma example_collect:
  "collect_all_server_metrics unreachable (\<lambda>s. 100) commit_accepted example_pool =
     (None, example_pool\<lparr>server_metrics := (server_metrics example_pool)
                             (1 \<mapsto> (default_metrics example_node)(''last_updated'' \<mapsto> 100)),
                         server_load_metrics := [load_row example_node (default_metrics example_node)]\<rparr>)"
  by (simp add: collect_all_server_metrics_def example_pool_def example_node_def node_def
      get_server_load_metrics_def unreachable_def commit_accepted_def)

text \<open>
  C5, the claim as stated fails: a healthy node with a cached snapshot of five active
  requests, whose fetch times out, has another snapshot afterwards, and one row is
  persisted.
\<close>

theorem failed_fetch_changes_snapshot:
  "example_node \<in> set (servers example_pool)
   \<and> health_status example_node = ''healthy''
   \<and> fetch_failed unreachable example_node
   \<and> server_metrics (snd (collect_all_server_metrics unreachable (\<lambda>s. 100) commit_accepted example_pool))
         (server_id example_node)
       \<noteq> server_metrics example_pool (server_id example_node)
   \<and> length (server_load_metrics
         (snd (collect_all_server_metrics unreachable (\<lambda>s. 100) commit_accepted example_pool))) = 1"
proof -
  have a: "the (server_metrics (snd (collect_all_server_metrics unreachable (\<lambda>s. 100) commit_accepted example_pool)) 1)
             ''active_requests'' = Some 0"
    by (simp add: example_collect default_metrics_def)
  have b: "the (server_metrics example_pool 1) ''active_requests'' = Some 5"
    by (simp add: example_pool_def)
  have "server_metrics (snd (collect_all_server_metrics unreachable (\<lambda>s. 100) commit_accepted example_pool)) 1
          \<noteq> server_metrics example_pool 1"
    using a b by auto
  moreover have "server_id example_node = 1" by (simp add: example_node_def)
  moreover have "length (server_load_metrics
         (snd (collect_all_server_metrics unreachable (\<lambda>s. 100) commit_accepted example_pool))) = 1"
    by (simp add: example_collect)
  ultimately show ?thesis
    by (simp add: example_pool_def fetch_failed_def unreachable_def) (simp add: example_node_def)
qed

text \<open>
  C5 as amended, on the same pool: the unreachable healthy node 1 gets the defaults,
  the offline node 2 keeps its snapshot of seven active requests.
\<close>

theorem failed_fetch_overwrites_snapshot_witness:
  "fst (collect_all_server_metrics unreachable (\<lambda>s. 100) commit_accepted example_pool) = None
   \<and> server_metrics (snd (collect_all_server_metrics unreachable (\<lambda>s. 100) commit_accepted example_pool)) 1 =
      Some ((default_metrics example_node)(''last_updated'' \<mapsto> 100))
   \<and> load_row example_node (default_metrics example_node)
       \<in> set (server_load_metrics (snd (collect_all_server_metrics unreachable (\<lambda>s. 100) commit_accepted example_pool)))
   \<and> server_metrics (snd (collect_all_server_metrics unreachable (\<lambda>s. 100) commit_accepted example_pool)) 2
       = Some [''active_requests'' \<mapsto> 7]"
proof -
  let ?r = "collect_all_server_metrics unreachable (\<lambda>s. 100) commit_accepted example_pool"
  have 1: "distinct (map server_id (servers example_pool))"
    by (simp add: example_pool_def example_node_def node_def)
  have 2: "example_node \<in> set (servers example_pool)" by (simp add: example_pool_def)
  have 3: "health_status example_node = ''healthy''" by (simp add: example_node_def)
  have 4: "fetch_failed unreachable example_node" by (simp add: fetch_failed_def unreachable_def)
  have f: "fst ?r = None" by (simp add: example_collect)
  then have 5: "?r = (None, snd ?r)" by (cases ?r) simp
  have 6: "list_all (\<lambda>t. server_id t \<noteq> 2 \<or> health_status t \<noteq> ''healthy'') (servers example_pool)"
    by (simp add: example_pool_def example_node_def node_def)
  have i: "server_id example_node = 1" by (simp add: example_node_def)
  have u: "server_metrics example_pool 2 = Some [''active_requests'' \<mapsto> 7]"
    by (simp add: example_pool_def)
  show ?thesis
    using failed_fetch_overwrites_snapshot[OF 1 2 3 4 5 6] f unfolding i u by simp
qed

section \<open>Properties of the semantic cache\<close>

lemma pair_values_length: "length (pair_values bs) = length bs div 2"
  by (induction bs rule: pair_values.induct) simp_all

lemma byte_pair_range:
  "0 \<le> real (unat (a :: 8 word) * 256 + unat (b :: 8 word)) / 65535
   \<and> real (unat a * 256 + unat b) / 65535 \<le> 1"
proof -
  have "unat a < 2 ^ LENGTH(8)" by (rule unsigned_less)
  then have a: "unat a < 256" by simp
  have "unat b < 2 ^ LENGTH(8)" by (rule unsigned_less)
  then have b: "unat b < 256" by simp
  from a b have "unat a * 256 + unat b \<le> 65535" by simp
  then have "real (unat a * 256 + unat b) \<le> real 65535" by (simp only: of_nat_le_iff)
  then have "real (unat a * 256 + unat b) / 65535 \<le> 1" by simp
  moreover have "0 \<le> real (unat a * 256 + unat b) / 65535"
  proof (rule divide_nonneg_nonneg)
    show "0 \<le> real (unat a * 256 + unat b)" by (rule of_nat_0_le_iff)
    show "(0::real) \<le> 65535" by simp
  qed
  ultimately show ?thesis by simp
qed

lemma pair_values_range: "list_all (\<lambda>x. 0 \<le> x \<and> x \<le> 1) (pair_values bs)"
proof (induction bs rule: pair_values.induct)
  case (1 a b rest)
  show ?case
    using byte_pair_range[of a b] 1 by simp
qed simp_all

lemma embedding_shape:
  "compute_embedding md5 text = pair_values (digest_bytes (md5 text)) @ replicate 8 0"
proof -
  have "length (pair_values (digest_bytes (md5 text))) = 8"
    by (simp add: pair_values_length digest_bytes_def)
  then show ?thesis by (simp add: compute_embedding_def Let_def)
qed

text \<open>
  C10. For every text, \<open>compute_embedding\<close> returns sixteen numbers. The first eight
  are computed from the digest of the text, one from each pair of consecutive bytes
  \<open>a\<close>, \<open>b\<close> as \<open>(256 a + b) / 65535\<close>, and lie between 0 and 1; the last eight
  are 0.
\<close>

theorem compute_embedding_sixteen:
  "length (compute_embedding md5 text) = 16
   \<and> take 8 (compute_embedding md5 text) = pair_values (digest_bytes (md5 text))
   \<and> list_all (\<lambda>x. 0 \<le> x \<and> x \<le> 1) (take 8 (compute_embedding md5 text))
   \<and> drop 8 (compute_embedding md5 text) = replicate 8 0"
proof -
  have l: "length (pair_values (digest_bytes (md5 text))) = 8"
    by (simp add: pair_values_length digest_bytes_def)
  show ?thesis
    unfolding embedding_shape using l pair_values_range[of "digest_bytes (md5 text)"] by simp
qed

lemma get_enabled:
  "ENABLE_SEMANTIC_CACHE cfg \<Longrightarrow> semantic_cache_get cfg md5 now db prompt model key = Inl generator_TypeError"
  by (simp add: semantic_cache_get_def get_db_refused Let_def)




lemma example_digest:
  "digest_bytes 0xFFFF0000000000000000000000000000 = [255, 255, 0, 0, 0, 0, 0, 0, 0, 0, 0, 0, 0, 0, 0, 0]"
  by (simp add: digest_bytes_def upt_conv_Cons)

lemma replicate_eight: "replicate 8 (0::real) = [0, 0, 0, 0, 0, 0, 0, 0]"
  by (simp add: numeral_eq_Suc)

lemma example_embedding:
  "compute_embedding example_md5 text = [1, 0, 0, 0, 0, 0, 0, 0, 0, 0, 0, 0, 0, 0, 0, 0]"
  by (simp add: compute_embedding_def example_md5_def example_digest replicate_eight)

text \<open>
  C7. The similarity path is claimed to return the first unexpired entry of the model
  whose similarity reaches the threshold. With the default settings (cache enabled),
  for every table, prompt, model and key, \<open>get\<close> raises \<open>TypeError\<close> at
  \<open>async with get_db()\<close> before it scans a row; so it does at time 1 on a table
  whose first row belongs to the model, expires at time 5 and stores the embedding of
  the prompt.
\<close>

theorem similarity_lookup_raises:
  "semantic_cache_get example_settings md5 now db prompt model key = Inl generator_TypeError
   \<and> entry_model_id (example_table ! 0) = 1
   \<and> 1 < expires_at (example_table ! 0)
   \<and> query_embedding (example_table ! 0) = Embedding_vector (compute_embedding example_md5 ''p'')
   \<and> semantic_cache_get example_settings example_md5 1 example_table ''p'' 1 None = Inl generator_TypeError"
proof -
  have en: "ENABLE_SEMANTIC_CACHE example_settings" by (simp add: example_settings_def)
  have row: "entry_model_id (example_table ! 0) = 1 \<and> 1 < expires_at (example_table ! 0)
      \<and> query_embedding (example_table ! 0) = Embedding_vector (compute_embedding example_md5 ''p'')"
    by (simp add: example_table_def cache_entry_def example_embedding)
  show ?thesis using row by (simp add: get_enabled[OF en])
qed

text \<open>
  C8. A lookup after a store is claimed to return the stored response and to count one
  hit. With the default settings, for every table and every argument, \<open>add\<close> raises
  \<open>TypeError\<close> when it constructs the entry with the keyword \<open>cache_key\<close>, which
  is no column of the table, so nothing is stored; the lookup that follows raises
  \<open>TypeError\<close> when it opens its session.
\<close>

theorem store_then_lookup_raises:
  "semantic_cache_add example_settings md5 c1 c2 db prompt resp model ptokens ctokens key
     = Inl (Raised ''TypeError'' (quoted ''cache_key'' @ '' is an invalid keyword argument for SemanticCacheEntry''))
   \<and> semantic_cache_get example_settings md5 now db prompt model key = Inl generator_TypeError"
  by (simp add: semantic_cache_add_def invalid_keyword_def SemanticCacheEntry_columns_def get_enabled
      example_settings_def Let_def)

section \<open>Properties of the inference orchestrator\<close>

text \<open>
  C3 as amended. When neither the requested name nor the configured default names a
  model, \<open>generate\<close> returns the error result \<open>Model not found\<close> and leaves the
  store as it was: no request row is created, none is changed.
\<close>

theorem model_not_found_writes_no_record:
  assumes "find (\<lambda>m. model_name m = requested_name cfg (req_model_name req)) (llm_models st) = None"
    and "find (\<lambda>m. model_name m = LLM_DEFAULT_MODEL cfg) (llm_models st) = None"
  shows "generate cfg env cache req st = (Inr (Generation_error ''Model not found''), st)"
  using assms by (simp add: generate_def resolve_model_def)

text \<open>
  C3, the claim as stated fails: with no model registered, \<open>generate\<close> answers
  \<open>Model not found\<close> and the table of requests is still empty, so no request is
  marked failed.
\<close>

theorem model_not_found_no_failed_record:
  "fst (generate example_settings example_environment None example_request (example_orchestrator [] []))
     = Inr (Generation_error ''Model not found'')
   \<and> queries (snd (generate example_settings example_environment None example_request (example_orchestrator [] []))) = []"
  by (simp add: generate_def resolve_model_def example_orchestrator_def)

text \<open>C3 as amended, on a store with no model.\<close>

theorem model_not_found_writes_no_record_witness:
  "generate example_settings example_environment None example_request (example_orchestrator [] [])
     = (Inr (Generation_error ''Model not found''), example_orchestrator [] [])"
proof -
  have 1: "find (\<lambda>m. model_name m = requested_name example_settings (req_model_name example_request))
             (llm_models (example_orchestrator [] [])) = None"
    by (simp add: example_orchestrator_def)
  have 2: "find (\<lambda>m. model_name m = LLM_DEFAULT_MODEL example_settings)
             (llm_models (example_orchestrator [] [])) = None"
    by (simp add: example_orchestrator_def)
  show ?thesis by (rule model_not_found_writes_no_record[OF 1 2])
qed










end
